theory Spec2Isabelle
  imports Complex_Main
begin

section \<open>Data model of \<open>src/App.tsx\<close>\<close>

text \<open>
  JavaScript numbers are modelled as exact reals: the development describes the
  arithmetic of the component on inputs where no rounding error, overflow, \<open>NaN\<close> or
  division by zero occurs. A theorem that depends on the value of a quotient states
  that the divisor is positive.
\<close>

record Point =
  point_x :: real
  point_y :: real

record Area =
  area_x :: real
  area_y :: real
  area_width :: real
  area_height :: real

text \<open>
  \<open>CropInfo.dimensions\<close> is the template string \<open>`${cropArea.width} x ${cropArea.height}`\<close>;
  the model keeps the two numbers the string is printed from.
\<close>

record CropInfo =
  crop_id :: string
  crop_dimensions :: "real \<times> real"
  crop_timestamp :: nat

text \<open>The three properties of a browser \<open>File\<close> that the component reads.\<close>

record File =
  file_name :: string
  file_size :: nat
  file_type :: string

record ImageData =
  img_id :: string
  img_file :: File
  img_url :: string
  img_name :: string
  img_size :: nat
  cropped :: bool
  cropHistory :: "CropInfo list"
  lastCrop :: "Area option"

text \<open>The object held by the state hook \<open>originalDimensions\<close>.\<close>

record Dimensions =
  dim_width :: real
  dim_height :: real

text \<open>\<open>const AspectRatios = { FREE: 0, ORIGINAL: -1, SQUARE: 1 }\<close>\<close>

definition FREE :: real where
  "FREE = 0"

definition ORIGINAL :: real where
  "ORIGINAL = - 1"

definition SQUARE :: real where
  "SQUARE = 1"

text \<open>
  The state hooks of \<open>App\<close>: \<open>images\<close>, \<open>currentImage\<close>, \<open>crop\<close>, \<open>zoom\<close>,
  \<open>aspectRatio\<close>, \<open>originalDimensions\<close>, \<open>cropArea\<close>, and \<open>isOpen\<close> of
  \<open>useDisclosure\<close>.
\<close>

record AppState =
  images :: "ImageData list"
  currentImage :: "ImageData option"
  crop :: Point
  zoom :: real
  aspectRatio :: real
  originalDimensions :: Dimensions
  cropArea :: Area
  isOpen :: bool

text \<open>The initial values passed to \<open>useState\<close>.\<close>

definition initialState :: AppState where
  "initialState =
     \<lparr>images = [], currentImage = None,
      crop = \<lparr>point_x = 0, point_y = 0\<rparr>,
      zoom = 1,
      aspectRatio = FREE,
      originalDimensions = \<lparr>dim_width = 0, dim_height = 0\<rparr>,
      cropArea = \<lparr>area_x = 0, area_y = 0, area_width = 0, area_height = 0\<rparr>,
      isOpen = False\<rparr>"

text \<open>\<open>keyof Area\<close>\<close>

datatype Field = X | Y | Width | Height

datatype Toast =
    InvalidFiles
  | TooManyFiles int
  | DuplicateFiles "string list"
  | CroppedSuccessfully

section \<open>Intake: \<open>onDrop\<close>\<close>

text \<open>\<open>file.type.startsWith("image/")\<close>\<close>

definition isImageType :: "File \<Rightarrow> bool" where
  "isImageType f = (take 6 (file_type f) = ''image/'')"

text \<open>
  \<open>Array.prototype.slice(0, n)\<close> for an integer \<open>n\<close>: a negative end counts from the
  end of the array.
\<close>

definition slice0 :: "'a list \<Rightarrow> int \<Rightarrow> 'a list" where
  "slice0 xs n =
     (if n < 0 then take (nat (int (length xs) + n)) xs else take (nat n) xs)"

text \<open>
  The body of \<open>filesToAdd.forEach\<close>. The duplicate test reads \<open>images\<close>, the state of
  the render that created the callback; \<open>duplicates\<close> and \<open>newImages\<close> are the two
  arrays the loop pushes to. \<open>nanoid k\<close> and \<open>createObjectURL k\<close> stand for the results
  of the \<open>k\<close>-th calls of \<open>nanoid()\<close> and \<open>URL.createObjectURL\<close> within one drop.
\<close>

fun forEachFile ::
  "(nat \<Rightarrow> string) \<Rightarrow> (nat \<Rightarrow> string) \<Rightarrow> ImageData list \<Rightarrow> File list \<Rightarrow>
   string list \<Rightarrow> ImageData list \<Rightarrow> string list \<times> ImageData list" where
  "forEachFile nanoid createObjectURL imgs [] duplicates newImages = (duplicates, newImages)"
| "forEachFile nanoid createObjectURL imgs (file # rest) duplicates newImages =
     (if list_ex (\<lambda>img. img_name img = file_name file \<and> img_size img = file_size file) imgs
      then forEachFile nanoid createObjectURL imgs rest (duplicates @ [file_name file]) newImages
      else forEachFile nanoid createObjectURL imgs rest duplicates
             (newImages @
               [\<lparr>img_id = nanoid (length newImages), img_file = file,
                 img_url = createObjectURL (length newImages),
                 img_name = file_name file, img_size = file_size file,
                 cropped = False, cropHistory = [], lastCrop = None\<rparr>]))"

definition onDrop ::
  "(nat \<Rightarrow> string) \<Rightarrow> (nat \<Rightarrow> string) \<Rightarrow> File list \<Rightarrow> AppState \<Rightarrow> AppState \<times> Toast list" where
  "onDrop nanoid createObjectURL acceptedFiles s =
     (let validFiles = filter isImageType acceptedFiles in
      if length validFiles = 0 then (s, [InvalidFiles])
      else
        let maxFilesAllowed = 10 - int (length (images s));
            t1 = (if int (length validFiles) > maxFilesAllowed
                  then [TooManyFiles maxFilesAllowed] else []);
            filesToAdd = slice0 validFiles maxFilesAllowed;
            (duplicates, newImages) =
              forEachFile nanoid createObjectURL (images s) filesToAdd [] [];
            t2 = (if length duplicates > 0 then [DuplicateFiles duplicates] else [])
        in (s\<lparr>images := images s @ newImages\<rparr>, t1 @ t2))"

section \<open>Opening the cropper\<close>

definition handleOpenCropper :: "ImageData \<Rightarrow> AppState \<Rightarrow> AppState" where
  "handleOpenCropper img s =
     (case lastCrop img of
        None \<Rightarrow>
          s\<lparr>currentImage := Some img,
            crop := \<lparr>point_x = 0, point_y = 0\<rparr>,
            zoom := 1,
            cropArea := \<lparr>area_x = 0, area_y = 0, area_width = 0, area_height = 0\<rparr>,
            isOpen := True\<rparr>
      | Some lc \<Rightarrow>
          s\<lparr>currentImage := Some img,
            crop := \<lparr>point_x = area_x lc, point_y = area_y lc\<rparr>,
            cropArea := lc,
            isOpen := True\<rparr>)"

text \<open>
  \<open>handleImageLoad\<close> runs when the hidden \<open><Image>\<close> has loaded. Its argument is
  \<open>imageRef.current\<close>: \<open>None\<close> for a null ref, otherwise the element's
  \<open>naturalWidth\<close> and \<open>naturalHeight\<close>.
\<close>

definition handleImageLoad :: "Dimensions option \<Rightarrow> AppState \<Rightarrow> AppState" where
  "handleImageLoad imageRef s =
     (case (imageRef, currentImage s) of
        (Some el, Some cur) \<Rightarrow>
          (let s1 = s\<lparr>originalDimensions :=
                        \<lparr>dim_width = dim_width el, dim_height = dim_height el\<rparr>\<rparr>;
               initialArea = \<lparr>area_x = 0, area_y = 0,
                              area_width = dim_width el, area_height = dim_height el\<rparr>
           in if lastCrop cur = None then s1\<lparr>cropArea := initialArea\<rparr> else s1)
      | _ \<Rightarrow> s)"

text \<open>
  Editing of an image begins with \<open>handleOpenCropper\<close> followed by the load event of
  the image that the opened modal mounts.
\<close>

definition begin_edit :: "ImageData \<Rightarrow> Dimensions \<Rightarrow> AppState \<Rightarrow> AppState" where
  "begin_edit img dims s = handleImageLoad (Some dims) (handleOpenCropper img s)"

text \<open>
  \<open>handleCropComplete\<close>, the zoom slider's \<open>onChange\<close> (\<open>setZoom\<close>) and \<open>onClose\<close> of
  \<open>useDisclosure\<close>, which the Cancel button and the close button of the modal call.
\<close>

definition handleCropComplete :: "Area \<Rightarrow> AppState \<Rightarrow> AppState" where
  "handleCropComplete croppedAreaPixels s = s\<lparr>cropArea := croppedAreaPixels\<rparr>"

definition setZoom :: "real \<Rightarrow> AppState \<Rightarrow> AppState" where
  "setZoom v s = s\<lparr>zoom := v\<rparr>"

definition onClose :: "AppState \<Rightarrow> AppState" where
  "onClose s = s\<lparr>isOpen := False\<rparr>"

section \<open>Aspect ratio\<close>

definition adjustCropAreaToRatio :: "real \<Rightarrow> AppState \<Rightarrow> AppState" where
  "adjustCropAreaToRatio ratio s =
     (if dim_width (originalDimensions s) = 0 then s
      else
        let newWidth = area_width (cropArea s);
            newHeight = newWidth / ratio
        in if newHeight > dim_height (originalDimensions s)
           then s\<lparr>cropArea := (cropArea s)
                     \<lparr>area_width := dim_height (originalDimensions s) * ratio,
                      area_height := dim_height (originalDimensions s)\<rparr>\<rparr>
           else s\<lparr>cropArea := (cropArea s)
                     \<lparr>area_width := newWidth, area_height := newHeight\<rparr>\<rparr>)"

definition handleAspectRatioChange :: "real \<Rightarrow> AppState \<Rightarrow> AppState" where
  "handleAspectRatioChange v s =
     (let s1 = s\<lparr>aspectRatio := v\<rparr> in
      if v = FREE then s1
      else if v = ORIGINAL \<and> dim_width (originalDimensions s) > 0
      then adjustCropAreaToRatio
             (dim_width (originalDimensions s) / dim_height (originalDimensions s)) s1
      else if v > 0 then adjustCropAreaToRatio v s1
      else s1)"

section \<open>Numeric field edits: \<open>handleCropAreaChange\<close>\<close>

text \<open>\<open>newCropArea[property] = value\<close>\<close>

fun setProperty :: "Field \<Rightarrow> real \<Rightarrow> Area \<Rightarrow> Area" where
  "setProperty X v a = a\<lparr>area_x := v\<rparr>"
| "setProperty Y v a = a\<lparr>area_y := v\<rparr>"
| "setProperty Width v a = a\<lparr>area_width := v\<rparr>"
| "setProperty Height v a = a\<lparr>area_height := v\<rparr>"

text \<open>
  The four statements under the comment \<open>Ensure crop area stays within image bounds\<close>,
  in the order of the source: both lower clamps first, then both shifts.
\<close>

definition clampToBounds :: "Area \<Rightarrow> Dimensions \<Rightarrow> Area" where
  "clampToBounds a b =
     (let a1 = (if area_x a < 0 then a\<lparr>area_x := 0\<rparr> else a);
          a2 = (if area_y a1 < 0 then a1\<lparr>area_y := 0\<rparr> else a1);
          a3 = (if area_x a2 + area_width a2 > dim_width b
                then a2\<lparr>area_x := dim_width b - area_width a2\<rparr> else a2);
          a4 = (if area_y a3 + area_height a3 > dim_height b
                then a3\<lparr>area_y := dim_height b - area_height a3\<rparr> else a3)
      in a4)"

text \<open>The branch \<open>Adjust other dimensions based on aspect ratio\<close>.\<close>

definition deriveOther :: "Field \<Rightarrow> real \<Rightarrow> AppState \<Rightarrow> Area \<Rightarrow> Area" where
  "deriveOther property v s a =
     (if aspectRatio s > 0 then
        (if property = Width then a\<lparr>area_height := v / aspectRatio s\<rparr>
         else if property = Height then a\<lparr>area_width := v * aspectRatio s\<rparr>
         else a)
      else if aspectRatio s = ORIGINAL \<and> dim_width (originalDimensions s) > 0 then
        (let originalRatio =
               dim_width (originalDimensions s) / dim_height (originalDimensions s)
         in if property = Width then a\<lparr>area_height := v / originalRatio\<rparr>
            else if property = Height then a\<lparr>area_width := v * originalRatio\<rparr>
            else a)
      else a)"

definition handleCropAreaChange :: "Field \<Rightarrow> real \<Rightarrow> AppState \<Rightarrow> AppState" where
  "handleCropAreaChange property v s =
     (let newCropArea =
            clampToBounds (deriveOther property v s (setProperty property v (cropArea s)))
              (originalDimensions s)
      in s\<lparr>cropArea := newCropArea,
           crop := \<lparr>point_x = area_x newCropArea, point_y = area_y newCropArea\<rparr>\<rparr>)"

section \<open>Committing a crop: \<open>handleCropSave\<close>\<close>

text \<open>
  What the browser does with the export is outside the component: whether
  \<open>image.onload\<close> fires, whether \<open>canvas.getContext("2d")\<close> returns a context, and
  whether the callback of \<open>canvas.toBlob\<close> receives a blob.
\<close>

record ExportEnv =
  onload_fires :: bool
  ctx_available :: bool
  blob_produced :: bool

text \<open>
  The result is the new state, the list of downloads started (\<open>link.download\<close>) and
  the toasts shown. \<open>newId\<close> is the result of \<open>nanoid()\<close> and \<open>now\<close> of
  \<open>new Date()\<close>. The callbacks read \<open>cropArea\<close> and \<open>currentImage\<close> of the render
  in which the button was pressed; events are processed one at a time.
\<close>

definition handleCropSave ::
  "ExportEnv \<Rightarrow> string \<Rightarrow> nat \<Rightarrow> AppState \<Rightarrow> AppState \<times> string list \<times> Toast list" where
  "handleCropSave env newId now s =
     (case currentImage s of
        None \<Rightarrow> (s, [], [])
      | Some cur \<Rightarrow>
          if onload_fires env \<and> ctx_available env \<and> blob_produced env then
            (let cropInfo =
                   \<lparr>crop_id = newId,
                    crop_dimensions = (area_width (cropArea s), area_height (cropArea s)),
                    crop_timestamp = now\<rparr>
             in (s\<lparr>images :=
                      map (\<lambda>img. if img_id img = img_id cur
                                  then img\<lparr>cropped := True,
                                           cropHistory := cropHistory img @ [cropInfo],
                                           lastCrop := Some (cropArea s)\<rparr>
                                  else img)
                          (images s)\<rparr>,
                 [''cropped-'' @ img_name cur],
                 [CroppedSuccessfully]))
          else (s, [], []))"

text \<open>
  The crop button of the \<open>k\<close>-th card calls \<open>handleOpenCropper\<close> with the \<open>k\<close>-th
  element of \<open>images\<close>; the image then loads with the given natural size.
\<close>

definition openCard :: "nat \<Rightarrow> Dimensions \<Rightarrow> AppState \<Rightarrow> AppState" where
  "openCard k dims s =
     (if k < length (images s) then begin_edit (images s ! k) dims s else s)"

section \<open>Sequences of edits\<close>

datatype Op = SetFieldValue Field real | SetAspectLock real

fun applyOp :: "Op \<Rightarrow> AppState \<Rightarrow> AppState" where
  "applyOp (SetFieldValue f v) s = handleCropAreaChange f v s"
| "applyOp (SetAspectLock v) s = handleAspectRatioChange v s"

fun run :: "Op list \<Rightarrow> AppState \<Rightarrow> AppState" where
  "run [] s = s"
| "run (op # ops) s = run ops (applyOp op s)"

section \<open>The properties the specification names\<close>

text \<open>
  The minimum of the width and height inputs (\<open>NumberInput min={10}\<close>), which the
  specification calls \<open>minDimension\<close>.
\<close>

definition minDimension :: real where
  "minDimension = 10"

definition contained :: "Dimensions \<Rightarrow> Area \<Rightarrow> bool" where
  "contained b a =
     (0 \<le> area_x a \<and> 0 \<le> area_y a \<and>
      area_x a + area_width a \<le> dim_width b \<and>
      area_y a + area_height a \<le> dim_height b)"

definition rectangleInvariants :: "Dimensions \<Rightarrow> Area \<Rightarrow> bool" where
  "rectangleInvariants b a =
     (minDimension \<le> area_width a \<and> minDimension \<le> area_height a \<and> contained b a)"

text \<open>
  The ratio a lock stands for in \<open>handleCropAreaChange\<close> and
  \<open>handleAspectRatioChange\<close>: a positive value is the ratio itself, \<open>ORIGINAL\<close> is the
  ratio of the image once its width is known, anything else is no ratio.
\<close>

definition lockedRatio :: "AppState \<Rightarrow> real option" where
  "lockedRatio s =
     (if aspectRatio s > 0 then Some (aspectRatio s)
      else if aspectRatio s = ORIGINAL \<and> dim_width (originalDimensions s) > 0
      then Some (dim_width (originalDimensions s) / dim_height (originalDimensions s))
      else None)"

text \<open>
  \<open>handleCropSave\<close> sizes the canvas from the rectangle (\<open>canvas.width = cropArea.width\<close>,
  \<open>canvas.height = cropArea.height\<close>). The assignment converts the number to an integer
  by dropping its fraction, and \<open>canvas.toBlob\<close> calls back with \<open>null\<close> when the canvas has
  no pixels, that is when either size is 0.
\<close>

definition canvasSize :: "real \<Rightarrow> int" where
  "canvasSize v = (if 0 \<le> v then \<lfloor>v\<rfloor> else \<lceil>v\<rceil>)"

definition canvasHasPixels :: "Area \<Rightarrow> bool" where
  "canvasHasPixels a = (canvasSize (area_width a) \<noteq> 0 \<and> canvasSize (area_height a) \<noteq> 0)"

text \<open>\<open>Math.round\<close>: the nearest integer, halves upwards.\<close>

definition Math_round :: "real \<Rightarrow> int" where
  "Math_round v = \<lfloor>v + 1 / 2\<rfloor>"

text \<open>The rectangle the specification's \<open>commit\<close> stores: every field rounded.\<close>

definition roundArea_spec :: "Area \<Rightarrow> Area" where
  "roundArea_spec a =
     \<lparr>area_x = of_int (Math_round (area_x a)), area_y = of_int (Math_round (area_y a)),
      area_width = of_int (Math_round (area_width a)),
      area_height = of_int (Math_round (area_height a))\<rparr>"

text \<open>
  \<open>clampToBounds\<close> in the words of the specification: shift left and up first, then
  clamp the position at zero.
\<close>

definition clampToBounds_spec :: "Area \<Rightarrow> Dimensions \<Rightarrow> Area" where
  "clampToBounds_spec a b =
     (let a1 = (if area_x a + area_width a > dim_width b
                then a\<lparr>area_x := dim_width b - area_width a\<rparr> else a);
          a2 = (if area_y a1 + area_height a1 > dim_height b
                then a1\<lparr>area_y := dim_height b - area_height a1\<rparr> else a1);
          a3 = (if area_x a2 < 0 then a2\<lparr>area_x := 0\<rparr> else a2);
          a4 = (if area_y a3 < 0 then a3\<lparr>area_y := 0\<rparr> else a3)
      in a4)"


section \<open>Concrete inputs\<close>

definition photoA :: File where
  "photoA = \<lparr>file_name = ''a.png'', file_size = 100, file_type = ''image/png''\<rparr>"

definition photoB :: File where
  "photoB = \<lparr>file_name = ''b.png'', file_size = 200, file_type = ''image/png''\<rparr>"

definition ids :: "nat \<Rightarrow> string" where
  "ids k = (if k = 0 then ''id0'' else ''id1'')"

definition urls :: "nat \<Rightarrow> string" where
  "urls k = (if k = 0 then ''blob:0'' else ''blob:1'')"

definition dims1000x800 :: Dimensions where
  "dims1000x800 = \<lparr>dim_width = 1000, dim_height = 800\<rparr>"

definition exportOk :: ExportEnv where
  "exportOk = \<lparr>onload_fires = True, ctx_available = True, blob_produced = True\<rparr>"

definition exportNoBlob :: ExportEnv where
  "exportNoBlob = \<lparr>onload_fires = True, ctx_available = True, blob_produced = False\<rparr>"

text \<open>Two different images uploaded in one drop.\<close>

definition twoImages :: AppState where
  "twoImages = fst (onDrop ids urls [photoA, photoB] initialState)"

text \<open>The first image opened and loaded at 1000 x 800.\<close>

definition editingA :: AppState where
  "editingA = openCard 0 dims1000x800 twoImages"

text \<open>The first card's crop button pressed, the image not yet loaded.\<close>

definition justOpened :: AppState where
  "justOpened = handleOpenCropper (images twoImages ! 0) twoImages"

text \<open>The 16:9 lock chosen on the full 1000 x 800 image, then zoom 2.\<close>

definition wide169 :: AppState where
  "wide169 = setZoom 2 (handleAspectRatioChange (16 / 9) editingA)"

text \<open>
  That rectangle committed; then the second image opened, zoomed to 3 and closed; then
  the first image opened again.
\<close>

definition committedA :: AppState where
  "committedA = fst (handleCropSave exportOk ''c0'' 1 wide169)"

definition reopenedA :: AppState where
  "reopenedA =
     openCard 0 dims1000x800
       (onClose (setZoom 3 (openCard 1 dims1000x800 (onClose committedA))))"


text \<open>0 typed into the width input of the full 1000 x 800 rectangle.\<close>

definition zeroWidth :: AppState where
  "zeroWidth = run [SetFieldValue Width 0] editingA"

text \<open>0.4 typed into the height input of the full 1000 x 800 rectangle.\<close>

definition thinStrip :: AppState where
  "thinStrip = run [SetFieldValue Height (2 / 5)] editingA"

text \<open>
  The cropper just opened and the cropping surface has already reported a rectangle,
  while the hidden image has not yet loaded: the recorded dimensions are still 0 x 0.
\<close>

definition reportedBeforeLoad :: AppState where
  "reportedBeforeLoad =
     handleCropComplete \<lparr>area_x = 100, area_y = 50, area_width = 300, area_height = 200\<rparr>
       justOpened"

text \<open>The 1:1 lock chosen, the modal closed, the second image opened.\<close>

definition squareThenB :: AppState where
  "squareThenB =
     openCard 1 dims1000x800 (onClose (handleAspectRatioChange SQUARE editingA))"

section \<open>Facts about the concrete inputs\<close>

lemma twoImages_images:
  "images twoImages =
     [\<lparr>img_id = ''id0'', img_file = photoA, img_url = ''blob:0'', img_name = ''a.png'',
       img_size = 100, cropped = False, cropHistory = [], lastCrop = None\<rparr>,
      \<lparr>img_id = ''id1'', img_file = photoB, img_url = ''blob:1'', img_name = ''b.png'',
       img_size = 200, cropped = False, cropHistory = [], lastCrop = None\<rparr>]"
  by (simp add: twoImages_def onDrop_def initialState_def isImageType_def slice0_def
      ids_def urls_def photoA_def photoB_def Let_def)

lemma twoImages_rest:
  "currentImage twoImages = None \<and> zoom twoImages = 1 \<and> aspectRatio twoImages = FREE \<and>
   originalDimensions twoImages = \<lparr>dim_width = 0, dim_height = 0\<rparr> \<and>
   cropArea twoImages = \<lparr>area_x = 0, area_y = 0, area_width = 0, area_height = 0\<rparr>"
  by (simp add: twoImages_def onDrop_def initialState_def isImageType_def slice0_def
      photoA_def photoB_def Let_def split_def)

lemma editingA_fields:
  "cropArea editingA = \<lparr>area_x = 0, area_y = 0, area_width = 1000, area_height = 800\<rparr> \<and>
   originalDimensions editingA = \<lparr>dim_width = 1000, dim_height = 800\<rparr> \<and>
   aspectRatio editingA = FREE \<and> zoom editingA = 1 \<and>
   images editingA = images twoImages \<and>
   currentImage editingA = Some (images twoImages ! 0)"
  by (simp add: editingA_def openCard_def begin_edit_def handleOpenCropper_def
      handleImageLoad_def dims1000x800_def twoImages_images twoImages_rest Let_def)

lemmas edit_defs = handleCropAreaChange_def deriveOther_def clampToBounds_def
  handleAspectRatioChange_def adjustCropAreaToRatio_def FREE_def ORIGINAL_def SQUARE_def Let_def

section \<open>The clamping step\<close>

lemma clampToBounds_size:
  "area_width (clampToBounds a b) = area_width a \<and>
   area_height (clampToBounds a b) = area_height a"
  by (simp add: clampToBounds_def Let_def)

lemma clampToBounds_x:
  "area_x (clampToBounds a b) =
     (if max (area_x a) 0 + area_width a > dim_width b then dim_width b - area_width a
      else max (area_x a) 0)"
  by (simp add: clampToBounds_def Let_def max_def)

lemma clampToBounds_y:
  "area_y (clampToBounds a b) =
     (if max (area_y a) 0 + area_height a > dim_height b then dim_height b - area_height a
      else max (area_y a) 0)"
  by (simp add: clampToBounds_def Let_def max_def)

lemma clampToBounds_contained:
  assumes "area_width a \<le> dim_width b" and "area_height a \<le> dim_height b"
  shows "contained b (clampToBounds a b)"
  using assms
  by (simp add: contained_def clampToBounds_x clampToBounds_y clampToBounds_size max_def)

lemma clampToBounds_agrees:
  assumes "area_width a \<le> dim_width b" and "area_height a \<le> dim_height b"
  shows "clampToBounds a b = clampToBounds_spec a b"
  using assms by (auto simp add: clampToBounds_def clampToBounds_spec_def Let_def)

text \<open>
  C5, as the code has it. The clamping step of \<open>handleCropAreaChange\<close> never changes
  width or height. It first raises a negative \<open>x\<close> (and \<open>y\<close>) to 0 and only then shifts
  \<open>x\<close> left to \<open>bounds.width - rect.width\<close> when \<open>x + width\<close> exceeds \<open>bounds.width\<close>
  (symmetrically for \<open>y\<close>); the shift is the last step and is not clamped again.
  Whenever \<open>width \<le> bounds.width\<close> and \<open>height \<le> bounds.height\<close> on entry, the result
  is contained in the bounds and equals the result of the order the specification
  words (shift first, clamp at 0 afterwards).
\<close>

theorem clampToBounds_clamp_then_shift:
  "area_width (clampToBounds a b) = area_width a \<and>
   area_height (clampToBounds a b) = area_height a \<and>
   area_x (clampToBounds a b) =
     (if max (area_x a) 0 + area_width a > dim_width b then dim_width b - area_width a
      else max (area_x a) 0) \<and>
   area_y (clampToBounds a b) =
     (if max (area_y a) 0 + area_height a > dim_height b then dim_height b - area_height a
      else max (area_y a) 0) \<and>
   (area_width a \<le> dim_width b \<and> area_height a \<le> dim_height b \<longrightarrow>
      contained b (clampToBounds a b) \<and> clampToBounds a b = clampToBounds_spec a b)"
  using clampToBounds_size [of a b] clampToBounds_x [of a b] clampToBounds_y [of a b]
    clampToBounds_contained [of a b] clampToBounds_agrees [of a b]
  by blast

text \<open>
  An 800 x 800 rectangle at \<open>(300, -5)\<close> in a 1000 x 800 image fits by size and is moved
  to \<open>(200, 0)\<close>.
\<close>

theorem clampToBounds_clamp_then_shift_witness:
  "area_width \<lparr>area_x = 300, area_y = - 5, area_width = 800, area_height = 800\<rparr>
     \<le> dim_width dims1000x800 \<and>
   area_height \<lparr>area_x = 300, area_y = - 5, area_width = 800, area_height = 800\<rparr>
     \<le> dim_height dims1000x800 \<and>
   contained dims1000x800
     (clampToBounds \<lparr>area_x = 300, area_y = - 5, area_width = 800, area_height = 800\<rparr>
        dims1000x800) \<and>
   clampToBounds \<lparr>area_x = 300, area_y = - 5, area_width = 800, area_height = 800\<rparr>
     dims1000x800 = \<lparr>area_x = 200, area_y = 0, area_width = 800, area_height = 800\<rparr>"
  using clampToBounds_clamp_then_shift
    [of "\<lparr>area_x = 300, area_y = - 5, area_width = 800, area_height = 800\<rparr>" dims1000x800]
  by (simp add: dims1000x800_def clampToBounds_def clampToBounds_spec_def contained_def Let_def)

text \<open>
  A rectangle wider than the image: the code leaves \<open>x = -1000\<close>, where shifting first
  and clamping at 0 afterwards gives \<open>x = 0\<close>. Typing 2000 into the width input of the
  full 1000 x 800 rectangle reaches it.
\<close>

theorem clampToBounds_order_counterexample:
  "area_x (clampToBounds \<lparr>area_x = 0, area_y = 0, area_width = 2000, area_height = 100\<rparr>
             dims1000x800) = - 1000 \<and>
   area_x (clampToBounds_spec \<lparr>area_x = 0, area_y = 0, area_width = 2000, area_height = 100\<rparr>
             dims1000x800) = 0 \<and>
   area_x (cropArea (handleCropAreaChange Width 2000 editingA)) = - 1000"
  by (simp add: clampToBounds_spec_def dims1000x800_def edit_defs editingA_fields)

section \<open>The rectangle invariants under edits\<close>

lemma run_snoc: "run (ops @ [op]) s = applyOp op (run ops s)"
  by (induction ops arbitrary: s) simp_all

lemma handleCropAreaChange_dims:
  "originalDimensions (handleCropAreaChange f v s) = originalDimensions s"
  by (simp add: handleCropAreaChange_def Let_def)

lemma handleAspectRatioChange_dims:
  "originalDimensions (handleAspectRatioChange v s) = originalDimensions s"
  by (simp add: handleAspectRatioChange_def adjustCropAreaToRatio_def Let_def)

lemma applyOp_dims: "originalDimensions (applyOp op s) = originalDimensions s"
  by (cases op) (simp_all add: handleCropAreaChange_dims handleAspectRatioChange_dims)

lemma run_dims: "originalDimensions (run ops s) = originalDimensions s"
  by (induction ops arbitrary: s) (simp_all add: applyOp_dims)

lemma handleCropAreaChange_contained:
  assumes "area_width (cropArea (handleCropAreaChange f v s))
             \<le> dim_width (originalDimensions s)"
    and "area_height (cropArea (handleCropAreaChange f v s))
             \<le> dim_height (originalDimensions s)"
  shows "contained (originalDimensions s) (cropArea (handleCropAreaChange f v s))"
  using assms
  by (simp add: handleCropAreaChange_def Let_def clampToBounds_size clampToBounds_contained)

lemma adjustCropAreaToRatio_position:
  "area_x (cropArea (adjustCropAreaToRatio r s)) = area_x (cropArea s) \<and>
   area_y (cropArea (adjustCropAreaToRatio r s)) = area_y (cropArea s)"
  by (simp add: adjustCropAreaToRatio_def Let_def)

lemma adjustCropAreaToRatio_shrinks:
  assumes "0 < r" and "area_height (cropArea s) \<le> dim_height (originalDimensions s)"
  shows "area_width (cropArea (adjustCropAreaToRatio r s)) \<le> area_width (cropArea s) \<and>
         area_height (cropArea (adjustCropAreaToRatio r s))
           \<le> dim_height (originalDimensions s)"
  using assms
  by (auto simp add: adjustCropAreaToRatio_def Let_def pos_less_divide_eq pos_divide_le_eq
      not_less mult.commute)

lemma handleAspectRatioChange_keeps:
  assumes c: "contained (originalDimensions s) (cropArea s)"
    and h: "0 < dim_height (originalDimensions s)"
  shows "area_x (cropArea (handleAspectRatioChange v s)) = area_x (cropArea s) \<and>
         area_y (cropArea (handleAspectRatioChange v s)) = area_y (cropArea s) \<and>
         area_width (cropArea (handleAspectRatioChange v s)) \<le> area_width (cropArea s) \<and>
         area_height (cropArea (handleAspectRatioChange v s))
           \<le> dim_height (originalDimensions s)"
proof -
  let ?s1 = "s\<lparr>aspectRatio := v\<rparr>"
  have hh: "area_height (cropArea ?s1) \<le> dim_height (originalDimensions ?s1)"
    using c by (simp add: contained_def)
  have free: "area_height (cropArea s) \<le> dim_height (originalDimensions s)"
    using c by (simp add: contained_def)
  show ?thesis
  proof (cases "v = FREE")
    case True
    then show ?thesis using free by (simp add: handleAspectRatioChange_def Let_def)
  next
    case nf: False
    show ?thesis
    proof (cases "v = ORIGINAL \<and> dim_width (originalDimensions s) > 0")
      case True
      then have r: "0 < dim_width (originalDimensions s) / dim_height (originalDimensions s)"
        using h by simp
      have eq: "handleAspectRatioChange v s =
          adjustCropAreaToRatio
            (dim_width (originalDimensions s) / dim_height (originalDimensions s)) ?s1"
        using True nf by (simp add: handleAspectRatioChange_def Let_def)
      show ?thesis
        using adjustCropAreaToRatio_position [of _ ?s1] adjustCropAreaToRatio_shrinks [OF r hh]
        by (simp add: eq)
    next
      case no: False
      show ?thesis
      proof (cases "0 < v")
        case True
        have eq: "handleAspectRatioChange v s = adjustCropAreaToRatio v ?s1"
          using True nf by (simp add: handleAspectRatioChange_def ORIGINAL_def Let_def)
        show ?thesis
          using adjustCropAreaToRatio_position [of _ ?s1]
            adjustCropAreaToRatio_shrinks [OF True hh]
          by (simp add: eq)
      next
        case False
        then show ?thesis
          using nf no free by (auto simp add: handleAspectRatioChange_def Let_def)
      qed
    qed
  qed
qed

text \<open>
  C1 at a concrete sequence. After opening the 1000 x 800 image, the 1:1 lock gives
  the rectangle \<open>{0, 0, 800, 800}\<close>, which satisfies the invariants. Typing 1000 into
  the width input, a value inside the input's own range of 10 to 1000, then derives
  height 1000; the lower clamp of \<open>y\<close> has already run when the shift sets
  \<open>y = 800 - 1000\<close>, so the handler leaves \<open>{0, -200, 1000, 1000}\<close>: \<open>y \<ge> 0\<close> fails and
  the invariants do not hold after this call.
\<close>

theorem locked_width_edit_leaves_image:
  "cropArea (run [SetAspectLock SQUARE] editingA) =
     \<lparr>area_x = 0, area_y = 0, area_width = 800, area_height = 800\<rparr> \<and>
   rectangleInvariants (originalDimensions editingA)
     (cropArea (run [SetAspectLock SQUARE] editingA)) \<and>
   minDimension \<le> 1000 \<and> 1000 \<le> dim_width (originalDimensions editingA) \<and>
   cropArea (run [SetAspectLock SQUARE, SetFieldValue Width 1000] editingA) =
     \<lparr>area_x = 0, area_y = - 200, area_width = 1000, area_height = 1000\<rparr> \<and>
   area_y (cropArea (run [SetAspectLock SQUARE, SetFieldValue Width 1000] editingA)) < 0 \<and>
   \<not> rectangleInvariants (originalDimensions editingA)
        (cropArea (run [SetAspectLock SQUARE, SetFieldValue Width 1000] editingA))"
  by (simp add: rectangleInvariants_def contained_def minDimension_def edit_defs
      editingA_fields)

section \<open>Aspect lock\<close>

lemma justOpened_fields:
  "originalDimensions justOpened = \<lparr>dim_width = 0, dim_height = 0\<rparr> \<and>
   cropArea justOpened = \<lparr>area_x = 0, area_y = 0, area_width = 0, area_height = 0\<rparr> \<and>
   aspectRatio justOpened = FREE \<and>
   images justOpened = images twoImages \<and>
   currentImage justOpened = Some (images twoImages ! 0)"
  by (simp add: justOpened_def handleOpenCropper_def twoImages_images twoImages_rest)

lemma reportedBeforeLoad_fields:
  "originalDimensions reportedBeforeLoad = \<lparr>dim_width = 0, dim_height = 0\<rparr> \<and>
   cropArea reportedBeforeLoad =
     \<lparr>area_x = 100, area_y = 50, area_width = 300, area_height = 200\<rparr>"
  by (simp add: reportedBeforeLoad_def handleCropComplete_def justOpened_fields)

lemma wide169_fields:
  "cropArea wide169 = \<lparr>area_x = 0, area_y = 0, area_width = 1000, area_height = 1125 / 2\<rparr> \<and>
   originalDimensions wide169 = \<lparr>dim_width = 1000, dim_height = 800\<rparr> \<and>
   aspectRatio wide169 = 16 / 9 \<and> zoom wide169 = 2 \<and>
   images wide169 = images twoImages \<and>
   currentImage wide169 = Some (images twoImages ! 0)"
  by (simp add: wide169_def setZoom_def edit_defs editingA_fields)


text \<open>
  C10. When the recorded image width is 0 (the dimensions are not yet known), choosing
  any aspect lock, \<open>Original\<close> or a fixed positive ratio included, stores the lock
  value and changes nothing else: no field of the crop rectangle is modified.
\<close>

theorem lock_without_dimensions_keeps_rectangle:
  assumes "dim_width (originalDimensions s) = 0"
  shows "handleAspectRatioChange v s = s\<lparr>aspectRatio := v\<rparr>"
  using assms by (simp add: handleAspectRatioChange_def adjustCropAreaToRatio_def Let_def)

text \<open>
  The rectangle \<open>{100, 50, 300, 200}\<close> reported before the image has loaded. Without
  the test of the recorded width the 1:1 lock would derive height 300, find it above
  the recorded height 0 and collapse the rectangle to 0 x 0; with it the rectangle
  stays as reported.
\<close>

theorem lock_without_dimensions_keeps_rectangle_witness:
  "dim_width (originalDimensions reportedBeforeLoad) = 0 \<and>
   cropArea reportedBeforeLoad =
     \<lparr>area_x = 100, area_y = 50, area_width = 300, area_height = 200\<rparr> \<and>
   handleAspectRatioChange SQUARE reportedBeforeLoad =
     reportedBeforeLoad\<lparr>aspectRatio := SQUARE\<rparr> \<and>
   cropArea (handleAspectRatioChange SQUARE reportedBeforeLoad) =
     \<lparr>area_x = 100, area_y = 50, area_width = 300, area_height = 200\<rparr> \<and>
   aspectRatio (handleAspectRatioChange SQUARE reportedBeforeLoad) = SQUARE \<and>
   cropArea (handleAspectRatioChange ORIGINAL reportedBeforeLoad) =
     \<lparr>area_x = 100, area_y = 50, area_width = 300, area_height = 200\<rparr> \<and>
   aspectRatio (handleAspectRatioChange ORIGINAL reportedBeforeLoad) = ORIGINAL \<and>
   cropArea (handleAspectRatioChange (16 / 9) reportedBeforeLoad) =
     \<lparr>area_x = 100, area_y = 50, area_width = 300, area_height = 200\<rparr>"
  using lock_without_dimensions_keeps_rectangle [of reportedBeforeLoad SQUARE]
    lock_without_dimensions_keeps_rectangle [of reportedBeforeLoad ORIGINAL]
    lock_without_dimensions_keeps_rectangle [of reportedBeforeLoad "16 / 9"]
  by (simp add: reportedBeforeLoad_fields)

text \<open>
  C7. For every field edit while the lock stands for a positive ratio \<open>r\<close> (a fixed
  ratio, or \<open>Original\<close> once the image width is known): editing width stores the value as
  width and sets \<open>height = value / r\<close>; editing height stores the value as height and sets
  \<open>width = value * r\<close>; editing \<open>x\<close> or \<open>y\<close> changes neither width nor height. The
  edited field keeps the typed value, so the derivation is a single pass.
\<close>

theorem locked_field_edit_single_pass:
  assumes "lockedRatio s = Some r" and "0 < r"
  shows
   "area_width (cropArea (handleCropAreaChange Width v s)) = v \<and>
    area_height (cropArea (handleCropAreaChange Width v s)) = v / r \<and>
    area_height (cropArea (handleCropAreaChange Height v s)) = v \<and>
    area_width (cropArea (handleCropAreaChange Height v s)) = v * r \<and>
    area_width (cropArea (handleCropAreaChange X v s)) = area_width (cropArea s) \<and>
    area_height (cropArea (handleCropAreaChange X v s)) = area_height (cropArea s) \<and>
    area_width (cropArea (handleCropAreaChange Y v s)) = area_width (cropArea s) \<and>
    area_height (cropArea (handleCropAreaChange Y v s)) = area_height (cropArea s)"
  using assms
  by (auto simp add: lockedRatio_def handleCropAreaChange_def deriveOther_def
      clampToBounds_size Let_def split: if_splits)

text \<open>
  Under 16:9, width 320 gives height 180 and height 90 gives width 160; under
  \<open>Original\<close> on the 1000 x 800 image, width 500 gives height 400.
\<close>

theorem locked_field_edit_single_pass_witness:
  "lockedRatio wide169 = Some (16 / 9) \<and> (0::real) < 16 / 9 \<and>
   cropArea (handleCropAreaChange Width 320 wide169) =
     \<lparr>area_x = 0, area_y = 0, area_width = 320, area_height = 180\<rparr> \<and>
   cropArea (handleCropAreaChange Height 90 wide169) =
     \<lparr>area_x = 0, area_y = 0, area_width = 160, area_height = 90\<rparr> \<and>
   lockedRatio (handleAspectRatioChange ORIGINAL editingA) = Some (1000 / 800) \<and>
   area_height (cropArea (handleCropAreaChange Width 500
       (handleAspectRatioChange ORIGINAL editingA))) = 400"
  using locked_field_edit_single_pass [of wide169 "16 / 9" 320]
    locked_field_edit_single_pass [of wide169 "16 / 9" 90]
    locked_field_edit_single_pass [of "handleAspectRatioChange ORIGINAL editingA" "1000 / 800" 500]
  by (simp add: lockedRatio_def wide169_fields edit_defs editingA_fields)




text \<open>
  C3, as the code has it. The lock is \<open>Free\<close> when the application starts. Opening the
  cropper, loading the image, closing the modal and committing a crop all leave the
  lock as it is, so editing begins with the lock the previous session ended with.
\<close>

theorem open_keeps_aspect_lock:
  "aspectRatio initialState = FREE \<and>
   aspectRatio (handleOpenCropper img s) = aspectRatio s \<and>
   aspectRatio (begin_edit img d s) = aspectRatio s \<and>
   aspectRatio (openCard k d s) = aspectRatio s \<and>
   aspectRatio (onClose s) = aspectRatio s \<and>
   aspectRatio (fst (handleCropSave env newId now s)) = aspectRatio s"
  by (simp add: initialState_def handleOpenCropper_def begin_edit_def handleImageLoad_def
      openCard_def onClose_def handleCropSave_def Let_def split: option.splits)

text \<open>
  The 1:1 lock chosen while editing the first image, the modal closed, the second
  image opened: the lock is still 1:1.
\<close>

theorem open_resets_lock_counterexample:
  "aspectRatio squareThenB = SQUARE \<and> aspectRatio squareThenB \<noteq> FREE \<and>
   currentImage squareThenB = Some (images twoImages ! 1) \<and> isOpen squareThenB"
  by (simp add: squareThenB_def openCard_def begin_edit_def handleOpenCropper_def
      handleImageLoad_def onClose_def edit_defs editingA_fields twoImages_images
      dims1000x800_def)

section \<open>Committing a crop\<close>

lemma handleCropSave_ok:
  assumes "currentImage s = Some cur"
    and "onload_fires env \<and> ctx_available env \<and> blob_produced env"
  shows "handleCropSave env newId now s =
     (s\<lparr>images :=
          map (\<lambda>img. if img_id img = img_id cur
                      then img\<lparr>cropped := True,
                               cropHistory := cropHistory img @
                                 [\<lparr>crop_id = newId,
                                   crop_dimensions =
                                     (area_width (cropArea s), area_height (cropArea s)),
                                   crop_timestamp = now\<rparr>],
                               lastCrop := Some (cropArea s)\<rparr>
                      else img)
              (images s)\<rparr>,
      [''cropped-'' @ img_name cur], [CroppedSuccessfully])"
  using assms by (simp add: handleCropSave_def Let_def)

lemma handleCropSave_skipped:
  assumes "\<not> (onload_fires env \<and> ctx_available env \<and> blob_produced env)"
  shows "handleCropSave env newId now s = (s, [], [])"
  using assms by (auto simp add: handleCropSave_def split: option.splits)

lemma committedA_images:
  "images committedA =
     [\<lparr>img_id = ''id0'', img_file = photoA, img_url = ''blob:0'', img_name = ''a.png'',
       img_size = 100, cropped = True,
       cropHistory =
         [\<lparr>crop_id = ''c0'', crop_dimensions = (1000, 1125 / 2), crop_timestamp = 1\<rparr>],
       lastCrop = Some \<lparr>area_x = 0, area_y = 0, area_width = 1000, area_height = 1125 / 2\<rparr>\<rparr>,
      \<lparr>img_id = ''id1'', img_file = photoB, img_url = ''blob:1'', img_name = ''b.png'',
       img_size = 200, cropped = False, cropHistory = [], lastCrop = None\<rparr>]"
  by (simp add: committedA_def handleCropSave_def exportOk_def wide169_fields twoImages_images)

lemma committedA_rest:
  "zoom committedA = 2 \<and> aspectRatio committedA = 16 / 9 \<and>
   cropArea committedA = cropArea wide169"
  by (simp add: committedA_def handleCropSave_def exportOk_def wide169_fields twoImages_images)

lemma zeroWidth_fields:
  "cropArea zeroWidth = \<lparr>area_x = 0, area_y = 0, area_width = 0, area_height = 800\<rparr> \<and>
   images zeroWidth = images twoImages \<and>
   currentImage zeroWidth = Some (images twoImages ! 0)"
  by (simp add: zeroWidth_def edit_defs editingA_fields)

text \<open>
  C2, as the code has it. For every commit on an active edit session whose export
  yields a blob, \<open>handleCropSave\<close> keeps the number of images and, for the image whose
  identifier is that of the current image, appends to its history a record with the
  fresh identifier, the current time and the width and height of the current rectangle
  as they are, sets \<open>lastCrop\<close> to the current rectangle as it is (no field is
  rounded), and sets \<open>cropped\<close> to true. Every other image is left unchanged.
\<close>

theorem commit_records_rectangle_verbatim:
  assumes "currentImage s = Some cur"
    and "onload_fires env \<and> ctx_available env \<and> blob_produced env"
    and "k < length (images s)"
  shows
   "length (images (fst (handleCropSave env newId now s))) = length (images s) \<and>
    (img_id (images s ! k) = img_id cur \<longrightarrow>
       images (fst (handleCropSave env newId now s)) ! k =
         (images s ! k)
           \<lparr>cropped := True,
            cropHistory := cropHistory (images s ! k) @
              [\<lparr>crop_id = newId,
                crop_dimensions = (area_width (cropArea s), area_height (cropArea s)),
                crop_timestamp = now\<rparr>],
            lastCrop := Some (cropArea s)\<rparr>) \<and>
    (img_id (images s ! k) \<noteq> img_id cur \<longrightarrow>
       images (fst (handleCropSave env newId now s)) ! k = images s ! k)"
  using assms(3) by (simp add: handleCropSave_ok [OF assms(1,2)])

text \<open>Committing the 1000 x 562.5 rectangle of the first of two images.\<close>

theorem commit_records_rectangle_verbatim_witness:
  "currentImage wide169 = Some (images twoImages ! 0) \<and>
   (onload_fires exportOk \<and> ctx_available exportOk \<and> blob_produced exportOk) \<and>
   (0::nat) < length (images wide169) \<and>
   img_id (images wide169 ! 0) = img_id (images twoImages ! 0) \<and>
   lastCrop (images (fst (handleCropSave exportOk ''c0'' 1 wide169)) ! 0) =
     Some \<lparr>area_x = 0, area_y = 0, area_width = 1000, area_height = 1125 / 2\<rparr> \<and>
   img_id (images wide169 ! 1) \<noteq> img_id (images twoImages ! 0) \<and>
   images (fst (handleCropSave exportOk ''c0'' 1 wide169)) ! 1 = images wide169 ! 1"
  using commit_records_rectangle_verbatim
      [of wide169 "images twoImages ! 0" exportOk 0 "''c0''" 1]
    commit_records_rectangle_verbatim
      [of wide169 "images twoImages ! 0" exportOk 1 "''c0''" 1]
  by (simp add: exportOk_def wide169_fields twoImages_images)

text \<open>
  The 16:9 lock on the 1000 x 800 image gives height 562.5. The commit stores 562.5
  in \<open>lastCrop\<close> and in the history record; rounding would store 563.
\<close>

theorem commit_rounds_counterexample:
  "lastCrop (images committedA ! 0) = Some (cropArea wide169) \<and>
   area_height (cropArea wide169) = 1125 / 2 \<and>
   area_height (roundArea_spec (cropArea wide169)) = 563 \<and>
   lastCrop (images committedA ! 0) \<noteq> Some (roundArea_spec (cropArea wide169)) \<and>
   crop_dimensions (last (cropHistory (images committedA ! 0))) = (1000, 1125 / 2)"
  by (simp add: committedA_images wide169_fields roundArea_spec_def Math_round_def)

lemma thinStrip_fields:
  "cropArea thinStrip = \<lparr>area_x = 0, area_y = 0, area_width = 1000, area_height = 2 / 5\<rparr> \<and>
   images thinStrip = images twoImages \<and>
   currentImage thinStrip = Some (images twoImages ! 0)"
  by (simp add: thinStrip_def edit_defs editingA_fields)

lemma Math_round_zero_canvasSize:
  assumes "Math_round v = 0"
  shows "canvasSize v = 0"
proof -
  have fl: "\<lfloor>v + 1 / 2\<rfloor> = 0"
    using assms by (simp add: Math_round_def)
  have lo: "0 \<le> v + 1 / 2" and hi: "v + 1 / 2 < 1"
    using fl by (simp_all add: floor_eq_iff)
  show ?thesis
  proof (cases "0 \<le> v")
    case True
    then have "\<lfloor>v\<rfloor> = 0"
      using hi by (simp add: floor_eq_iff)
    then show ?thesis
      using True by (simp add: canvasSize_def)
  next
    case False
    then have "\<lceil>v\<rceil> = 0"
      using lo by (simp add: ceiling_eq_iff)
    then show ?thesis
      using False by (simp add: canvasSize_def)
  qed
qed

lemma rounded_zero_has_no_pixels:
  assumes "Math_round (area_width a) = 0 \<or> Math_round (area_height a) = 0"
  shows "\<not> canvasHasPixels a"
  using assms Math_round_zero_canvasSize [of "area_width a"]
    Math_round_zero_canvasSize [of "area_height a"]
  by (auto simp add: canvasHasPixels_def)

text \<open>
  C8, as the code has it. Let the export yield a blob only for a canvas with pixels,
  as the platform does. Then for every edit session whose current rectangle has a
  rounded width of 0 or a rounded height of 0, the commit is skipped: the state is
  unchanged (no history entry is appended, \<open>lastCrop\<close> is as before), no download is
  started, and nothing is reported. \<open>handleCropSave\<close> has no empty-region check and no
  error of that kind: the skip is silent.
\<close>

theorem commit_of_empty_region_is_skipped_silently:
  assumes "Math_round (area_width (cropArea s)) = 0 \<or>
           Math_round (area_height (cropArea s)) = 0"
    and "blob_produced env \<longrightarrow> canvasHasPixels (cropArea s)"
  shows "handleCropSave env newId now s = (s, [], [])"
proof -
  have "\<not> blob_produced env"
    using assms rounded_zero_has_no_pixels [of "cropArea s"] by blast
  then show ?thesis
    by (simp add: handleCropSave_skipped)
qed

text \<open>
  Width 0 and height 0.4, each typed into its input on the open 1000 x 800 image; the
  image loads and a context exists, and the export yields no blob.
\<close>

theorem commit_of_empty_region_is_skipped_silently_witness:
  "Math_round (area_width (cropArea zeroWidth)) = 0 \<and>
   Math_round (area_height (cropArea thinStrip)) = 0 \<and>
   \<not> canvasHasPixels (cropArea zeroWidth) \<and>
   \<not> canvasHasPixels (cropArea thinStrip) \<and>
   \<not> blob_produced exportNoBlob \<and>
   onload_fires exportNoBlob \<and> ctx_available exportNoBlob \<and>
   currentImage zeroWidth = Some (images twoImages ! 0) \<and>
   handleCropSave exportNoBlob ''c1'' 2 zeroWidth = (zeroWidth, [], []) \<and>
   handleCropSave exportNoBlob ''c1'' 2 thinStrip = (thinStrip, [], [])"
  using commit_of_empty_region_is_skipped_silently [of zeroWidth exportNoBlob "''c1''" 2]
    commit_of_empty_region_is_skipped_silently [of thinStrip exportNoBlob "''c1''" 2]
  by (simp add: Math_round_def canvasHasPixels_def canvasSize_def exportNoBlob_def
      zeroWidth_fields thinStrip_fields)

text \<open>
  The rectangle of width 0 committed on the open image: the canvas has no pixels, the
  export yields no blob, and the result carries no notification at all, so no failure
  is reported to the user or to the caller.
\<close>

theorem commit_reports_no_empty_region_counterexample:
  "Math_round (area_width (cropArea zeroWidth)) = 0 \<and>
   currentImage zeroWidth = Some (images twoImages ! 0) \<and>
   \<not> canvasHasPixels (cropArea zeroWidth) \<and>
   \<not> blob_produced exportNoBlob \<and>
   snd (snd (handleCropSave exportNoBlob ''c1'' 2 zeroWidth)) = [] \<and>
   fst (handleCropSave exportNoBlob ''c1'' 2 zeroWidth) = zeroWidth"
  by (simp add: Math_round_def canvasHasPixels_def canvasSize_def handleCropSave_def
      exportNoBlob_def zeroWidth_fields)

section \<open>Beginning an edit session\<close>

lemma begin_edit_resume:
  assumes "lastCrop img = Some lc"
  shows "cropArea (begin_edit img d s) = lc \<and> zoom (begin_edit img d s) = zoom s"
  using assms by (simp add: begin_edit_def handleOpenCropper_def handleImageLoad_def Let_def)

lemma begin_edit_fresh:
  assumes "lastCrop img = None"
  shows "cropArea (begin_edit img d s) =
           \<lparr>area_x = 0, area_y = 0, area_width = dim_width d, area_height = dim_height d\<rparr> \<and>
         zoom (begin_edit img d s) = 1"
  using assms by (simp add: begin_edit_def handleOpenCropper_def handleImageLoad_def Let_def)

lemma reopen_after_commit:
  assumes k: "k < length (images s)" and cur: "currentImage s = Some cur"
    and same: "img_id (images s ! k) = img_id cur"
    and env: "onload_fires env \<and> ctx_available env \<and> blob_produced env"
  shows "cropArea (openCard k d (onClose (fst (handleCropSave env newId now s)))) = cropArea s"
proof -
  let ?s' = "onClose (fst (handleCropSave env newId now s))"
  have len: "k < length (images ?s')"
    using k by (simp add: onClose_def handleCropSave_ok [OF cur env])
  have lc: "lastCrop (images ?s' ! k) = Some (cropArea s)"
    using k same by (simp add: onClose_def handleCropSave_ok [OF cur env])
  show ?thesis
    using len begin_edit_resume [OF lc] by (simp add: openCard_def)
qed

lemma reopenedA_fields:
  "zoom reopenedA = 3 \<and>
   cropArea reopenedA = \<lparr>area_x = 0, area_y = 0, area_width = 1000, area_height = 1125 / 2\<rparr> \<and>
   currentImage reopenedA = Some (images committedA ! 0)"
  by (simp add: reopenedA_def openCard_def begin_edit_def handleOpenCropper_def
      handleImageLoad_def onClose_def setZoom_def committedA_images committedA_rest Let_def)

text \<open>
  C4, as the code has it. For every image, opening it and loading it seeds the edit
  session as follows. If \<open>lastCrop\<close> is present, the rectangle equals it and the zoom is
  left at whatever value the zoom control holds, which is the value last used in any
  session of any image (1 when the application starts). Otherwise the rectangle is the
  full image \<open>{0, 0, imageWidth, imageHeight}\<close> and the zoom is 1. Reopening an image
  after a commit whose export yielded a blob gives exactly the rectangle that was
  current at the commit, unrounded.
\<close>

theorem begin_seeds_rectangle_and_zoom:
  "(lastCrop img = Some lc \<longrightarrow>
      cropArea (begin_edit img d s) = lc \<and> zoom (begin_edit img d s) = zoom s) \<and>
   (lastCrop img = None \<longrightarrow>
      cropArea (begin_edit img d s) =
        \<lparr>area_x = 0, area_y = 0, area_width = dim_width d, area_height = dim_height d\<rparr> \<and>
      zoom (begin_edit img d s) = 1) \<and>
   zoom initialState = 1 \<and>
   (k < length (images s) \<and> currentImage s = Some cur \<and>
    img_id (images s ! k) = img_id cur \<and>
    onload_fires env \<and> ctx_available env \<and> blob_produced env \<longrightarrow>
      cropArea (openCard k d (onClose (fst (handleCropSave env newId now s)))) = cropArea s)"
  using begin_edit_resume [of img lc d s] begin_edit_fresh [of img d s]
    reopen_after_commit [of k s cur env d newId now]
  by (simp add: initialState_def)

text \<open>
  After the commit of the first image at zoom 2: opening it again gives the committed
  rectangle and zoom 2, opening the second image gives the full image and zoom 1.
\<close>

theorem begin_seeds_rectangle_and_zoom_witness:
  "lastCrop (images committedA ! 0) =
     Some \<lparr>area_x = 0, area_y = 0, area_width = 1000, area_height = 1125 / 2\<rparr> \<and>
   cropArea (begin_edit (images committedA ! 0) dims1000x800 committedA) =
     \<lparr>area_x = 0, area_y = 0, area_width = 1000, area_height = 1125 / 2\<rparr> \<and>
   zoom (begin_edit (images committedA ! 0) dims1000x800 committedA) = 2 \<and>
   lastCrop (images committedA ! 1) = None \<and>
   cropArea (begin_edit (images committedA ! 1) dims1000x800 committedA) =
     \<lparr>area_x = 0, area_y = 0, area_width = 1000, area_height = 800\<rparr> \<and>
   zoom (begin_edit (images committedA ! 1) dims1000x800 committedA) = 1 \<and>
   (0::nat) < length (images wide169) \<and>
   currentImage wide169 = Some (images twoImages ! 0) \<and>
   img_id (images wide169 ! 0) = img_id (images twoImages ! 0) \<and>
   (onload_fires exportOk \<and> ctx_available exportOk \<and> blob_produced exportOk) \<and>
   cropArea (openCard 0 dims1000x800 (onClose (fst (handleCropSave exportOk ''c0'' 1 wide169)))) =
     \<lparr>area_x = 0, area_y = 0, area_width = 1000, area_height = 1125 / 2\<rparr>"
  using begin_seeds_rectangle_and_zoom
      [where img = "images committedA ! 0" and d = dims1000x800 and s = committedA
        and lc = "\<lparr>area_x = 0, area_y = 0, area_width = 1000, area_height = 1125 / 2\<rparr>"]
    begin_seeds_rectangle_and_zoom
      [where img = "images committedA ! 1" and d = dims1000x800 and s = committedA]
    begin_seeds_rectangle_and_zoom
      [where s = wide169 and d = dims1000x800 and k = 0 and cur = "images twoImages ! 0"
        and env = exportOk and newId = "''c0''" and now = 1]
  by (simp add: committedA_images committedA_rest wide169_fields exportOk_def dims1000x800_def
      twoImages_images)

text \<open>
  The first image is committed at zoom 2 with height 562.5; the second image is then
  opened and zoomed to 3; the first image is opened again. Its zoom is 3, neither the
  zoom of its commit nor 1, and its rectangle is not the rounded one.
\<close>

theorem begin_zoom_counterexample:
  "lastCrop (images committedA ! 0) \<noteq> None \<and>
   currentImage reopenedA = Some (images committedA ! 0) \<and>
   zoom wide169 = 2 \<and> zoom reopenedA = 3 \<and>
   zoom reopenedA \<noteq> zoom wide169 \<and> zoom reopenedA \<noteq> 1 \<and>
   cropArea reopenedA \<noteq> roundArea_spec (cropArea wide169)"
  by (simp add: reopenedA_fields committedA_images wide169_fields roundArea_spec_def
      Math_round_def)

section \<open>Duplicate detection at intake\<close>

text \<open>
  C9 at a concrete drop. Two files with the same name and byte size dropped together
  on the empty collection are both added and no duplicate is reported, whereas the same
  file dropped when it is already in the collection is rejected and reported.
\<close>

theorem same_batch_duplicates_both_added:
  "map (\<lambda>i. (img_name i, img_size i))
       (images (fst (onDrop ids urls [photoA, photoA] initialState))) =
     [(''a.png'', 100), (''a.png'', 100)] \<and>
   snd (onDrop ids urls [photoA, photoA] initialState) = [] \<and>
   images (fst (onDrop ids urls [photoA] twoImages)) = images twoImages \<and>
   snd (onDrop ids urls [photoA] twoImages) = [DuplicateFiles [''a.png'']]"
  by (simp add: onDrop_def initialState_def isImageType_def slice0_def ids_def urls_def
      photoA_def twoImages_images Let_def)

end
